theory Spec2Isabelle
  imports Main
begin

section \<open>Data model (models.py)\<close>

text \<open>
  A Python \<open>str\<close> is a sequence of Unicode code points and \<open>len\<close> counts code points,
  so user-supplied text is a list of code points. Literals of the source (flash messages,
  template and endpoint names) stay Isabelle strings.
\<close>

type_synonym pystr = "nat list"

definition str :: "string \<Rightarrow> pystr" where
  "str s = map of_char s"

text \<open>
  The rows of the two tables. The primary key column \<open>id\<close> of the source is \<open>uid\<close> for
  \<open>User\<close> and \<open>tid\<close> for \<open>Todo\<close> (\<open>id\<close> is the identity function of HOL).
\<close>

record user =
  uid :: nat
  email :: pystr
  password :: pystr

record todo =
  tid :: nat
  content :: pystr
  completed :: bool
  user_id :: nat

text \<open>
  The functions of the libraries that the source calls and that are not modelled here:
  \<open>werkzeug.security.generate_password_hash\<close> (it draws a random salt, passed as the first
  argument), \<open>check_password_hash\<close>, and the \<open>Email()\<close> validator of WTForms.
\<close>

record libs =
  generate_password_hash :: "nat \<Rightarrow> pystr \<Rightarrow> pystr"
  check_password_hash :: "pystr \<Rightarrow> pystr \<Rightarrow> bool"
  email_validator :: "pystr \<Rightarrow> bool"

text \<open>\<open>User.set_password\<close> and \<open>User.check_password\<close> (models.py).\<close>

definition set_password :: "libs \<Rightarrow> nat \<Rightarrow> user \<Rightarrow> pystr \<Rightarrow> user" where
  "set_password L salt u pw = u\<lparr>password := generate_password_hash L salt pw\<rparr>"

definition check_password :: "libs \<Rightarrow> user \<Rightarrow> pystr \<Rightarrow> bool" where
  "check_password L u pw = check_password_hash L (password u) pw"

section \<open>Application state\<close>

text \<open>
  The database (tables \<open>users\<close> and \<open>todos\<close>, rows in insertion order) together with the
  cookies of the client that sends the request: the user id that Flask-Login keeps in the
  session cookie, the user id of the remember cookie that \<open>login_user(remember=True)\<close>
  sets (both cookies are signed, so a client cannot write them), and the flashed messages
  (message, category).
\<close>

record state =
  users :: "user list"
  todos :: "todo list"
  session_user_id :: "nat option"
  remember_cookie :: "nat option"
  flashes :: "(string \<times> string) list"

text \<open>\<open>db.create_all()\<close> on a fresh database, and a client without a session.\<close>

definition init_state :: state where
  "init_state = \<lparr>users = [], todos = [], session_user_id = None,
     remember_cookie = None, flashes = []\<rparr>"

text \<open>
  The errors of the database driver: a violated constraint, and an integer parameter that
  does not fit the 64-bit INTEGER of SQLite.
\<close>

datatype db_error = IntegrityError | OverflowError

text \<open>
  \<open>db.session.get(User, id)\<close>: the row with that primary key, or \<open>None\<close>. The id comes
  from a signed cookie, where \<open>login_user\<close> wrote the key of a stored row.
\<close>

definition get_user :: "state \<Rightarrow> nat \<Rightarrow> user option" where
  "get_user st i = find (\<lambda>u. uid u = i) (users st)"

text \<open>
  \<open>db.session.get(Todo, todo_id)\<close>, where \<open>todo_id\<close> comes from the URL: the SELECT by
  primary key gives the row or \<open>None\<close>, and binding an id of \<open>2 ^ 63\<close> or more raises
  \<open>OverflowError\<close> before any row is read.
\<close>

definition select_todo :: "state \<Rightarrow> nat \<Rightarrow> todo option" where
  "select_todo st i = find (\<lambda>t. tid t = i) (todos st)"

definition get_todo :: "state \<Rightarrow> nat \<Rightarrow> db_error + todo option" where
  "get_todo st i = (if 2 ^ 63 \<le> i then Inl OverflowError else Inr (select_todo st i))"

text \<open>\<open>User.query.filter_by(email=e).first()\<close>.\<close>

definition first_by_email :: "state \<Rightarrow> pystr \<Rightarrow> user option" where
  "first_by_email st e = find (\<lambda>u. email u = e) (users st)"

text \<open>\<open>Todo.query.filter_by(user_id=i).all()\<close>.\<close>

definition todos_of :: "state \<Rightarrow> nat \<Rightarrow> todo list" where
  "todos_of st i = filter (\<lambda>t. user_id t = i) (todos st)"

text \<open>
  An integer primary key of SQLite without AUTOINCREMENT: the new row gets the largest
  key of the table plus one, and 1 in an empty table. Keys are natural numbers (the URL
  converter \<open>int\<close> of the routes matches digits only). What SQLite does once a table has
  used the key \<open>2 ^ 63 - 1\<close> is not modelled.
\<close>

definition next_id :: "nat list \<Rightarrow> nat" where
  "next_id ids = Suc (fold max ids 0)"

text \<open>
  \<open>load_user\<close> (main.py:34-47) is the callback with which Flask-Login resolves
  \<open>current_user\<close>: first the user row of the id in the session; when the session has no
  id or the row is gone, the user row of the id in the remember cookie; anonymous
  (\<open>None\<close>) otherwise.
\<close>

definition load_user :: "state \<Rightarrow> nat \<Rightarrow> user option" where
  "load_user st i = get_user st i"

definition session_user :: "state \<Rightarrow> user option" where
  "session_user st = (case session_user_id st of None \<Rightarrow> None | Some i \<Rightarrow> load_user st i)"

definition current_user :: "state \<Rightarrow> user option" where
  "current_user st =
     (case session_user st of
        Some u \<Rightarrow> Some u
      | None \<Rightarrow> (case remember_cookie st of None \<Rightarrow> None | Some i \<Rightarrow> load_user st i))"

text \<open>
  Resolving the user from the remember cookie writes the id of the cookie into the
  session, whether or not a row has that id.
\<close>

definition load_session :: "state \<Rightarrow> state" where
  "load_session st =
     (case session_user st of
        Some u \<Rightarrow> st
      | None \<Rightarrow> (case remember_cookie st of
                  None \<Rightarrow> st
                | Some i \<Rightarrow> st\<lparr>session_user_id := Some i\<rparr>))"

definition flash :: "string \<Rightarrow> string \<Rightarrow> state \<Rightarrow> state" where
  "flash msg category st = st\<lparr>flashes := flashes st @ [(msg, category)]\<rparr>"

section \<open>Requests and responses\<close>

text \<open>
  A request: its method (POST or GET), whether its CSRF token is valid, the submitted form
  fields by name (an absent field reads as the empty string: both are falsy for every
  validator used here), and the \<open>next\<close> query argument.
\<close>

record request =
  is_post :: bool
  csrf_valid :: bool
  form_data :: "string \<Rightarrow> pystr"
  next_arg :: "pystr option"

datatype validation_error =
    DataRequired_error
  | Email_error
  | Length_error
  | Csrf_error
  | Custom string

type_synonym form_errors = "(string \<times> validation_error list) list"

text \<open>
  Where a redirect goes: \<open>url_for(endpoint)\<close>, the login view with the gated view as
  \<open>next\<close> (endpoint and URL arguments), or the \<open>next\<close> argument of the request.
\<close>

datatype location =
    Url_for string
  | Login_next string "nat list"
  | Next_page pystr

text \<open>
  A response: a redirect, a rendered template with the errors of its form and the
  \<open>todos\<close> it lists (none for the register and login pages), or the 500 response of an
  exception that no handler catches.
\<close>

datatype response =
    Redirect location
  | Render string form_errors "todo list"
  | Internal_server_error

section \<open>Form validation (forms.py)\<close>

text \<open>
  \<open>str.isspace\<close> of one code point, and \<open>str.strip()\<close>.
\<close>

definition isspace :: "nat \<Rightarrow> bool" where
  "isspace c = (c \<in> set ([9, 10, 11, 12, 13, 28, 29, 30, 31, 32, 133, 160, 5760]
     @ [8192 ..< 8203] @ [8232, 8233, 8239, 8287, 12288]))"

definition strip :: "pystr \<Rightarrow> pystr" where
  "strip s = rev (dropWhile isspace (rev (dropWhile isspace s)))"

text \<open>
  A validator passes, adds an error and lets the chain go on (\<open>ValidationError\<close>), or adds
  an error and stops the chain (\<open>StopValidation\<close>).
\<close>

datatype outcome = Pass | Fail validation_error | Stop validation_error

fun run_validation_chain :: "outcome list \<Rightarrow> validation_error list" where
  "run_validation_chain [] = []"
| "run_validation_chain (Pass # vs) = run_validation_chain vs"
| "run_validation_chain (Fail e # vs) = e # run_validation_chain vs"
| "run_validation_chain (Stop e # vs) = [e]"

text \<open>
  The validators are those of WTForms that forms.py instantiates. \<open>DataRequired\<close> passes
  when \<^verbatim>\<open>field.data and (not isinstance(field.data, str) or field.data.strip())\<close>:
  the data is truthy and, stripped of whitespace, still not empty; otherwise it stops the
  chain. \<open>Email\<close>, \<open>Length\<close> and \<open>EqualTo\<close> raise \<open>ValidationError\<close>.
\<close>

definition DataRequired :: "pystr \<Rightarrow> outcome" where
  "DataRequired d = (if d \<noteq> [] \<and> strip d \<noteq> [] then Pass else Stop DataRequired_error)"

definition Email :: "libs \<Rightarrow> pystr \<Rightarrow> outcome" where
  "Email L d = (if email_validator L d then Pass else Fail Email_error)"

text \<open>\<open>Length(min, max, message)\<close>; a bound of \<open>-1\<close> is no bound.\<close>

definition Length :: "int \<Rightarrow> int \<Rightarrow> validation_error \<Rightarrow> pystr \<Rightarrow> outcome" where
  "Length mn mx msg d =
     (if mn \<le> int (length d) \<and> (mx = - 1 \<or> int (length d) \<le> mx) then Pass else Fail msg)"

definition EqualTo :: "pystr \<Rightarrow> string \<Rightarrow> pystr \<Rightarrow> outcome" where
  "EqualTo other msg d = (if d = other then Pass else Fail (Custom msg))"

text \<open>
  \<open>form.validate()\<close>: every field runs its chain; \<open>form.errors\<close> keeps the fields that
  have errors. The CSRF token is a field of every \<open>FlaskForm\<close>.
\<close>

definition validate :: "request \<Rightarrow> (string \<times> outcome list) list \<Rightarrow> form_errors" where
  "validate req flds =
     filter (\<lambda>(name, errs). errs \<noteq> [])
       (map (\<lambda>(name, chain). (name, run_validation_chain chain)) flds
        @ [(''csrf_token'', if csrf_valid req then [] else [Csrf_error])])"

text \<open>The validator chains of the three forms, on the data of a request.\<close>

definition RegisterForm :: "libs \<Rightarrow> request \<Rightarrow> (string \<times> outcome list) list" where
  "RegisterForm L req =
     [(''email'', [DataRequired (form_data req ''email''), Email L (form_data req ''email'')]),
      (''password'', [DataRequired (form_data req ''password''),
                      Length 6 (- 1) Length_error (form_data req ''password'')]),
      (''password2'', [DataRequired (form_data req ''password2''),
                       EqualTo (form_data req ''password'') ''Passwords must match''
                         (form_data req ''password2'')])]"

definition LoginForm :: "libs \<Rightarrow> request \<Rightarrow> (string \<times> outcome list) list" where
  "LoginForm L req =
     [(''email'', [DataRequired (form_data req ''email''), Email L (form_data req ''email'')]),
      (''password'', [DataRequired (form_data req ''password'')])]"

definition TodoForm :: "request \<Rightarrow> (string \<times> outcome list) list" where
  "TodoForm req =
     [(''content'', [DataRequired (form_data req ''content''),
                     Length (- 1) 200 (Custom ''Todo must be less than 200 characters'')
                       (form_data req ''content'')])]"

text \<open>
  \<open>form.errors\<close> as the template sees it: empty on a GET, where no validator runs.
\<close>

definition errors_of :: "request \<Rightarrow> (string \<times> outcome list) list \<Rightarrow> form_errors" where
  "errors_of req flds = (if is_post req then validate req flds else [])"

definition validate_on_submit :: "request \<Rightarrow> (string \<times> outcome list) list \<Rightarrow> bool" where
  "validate_on_submit req flds = (is_post req \<and> validate req flds = [])"

text \<open>
  The \<open>remember\<close> checkbox (\<open>BooleanField\<close>): false when absent, empty or \<open>false\<close>.
\<close>

definition remember_data :: "request \<Rightarrow> bool" where
  "remember_data req =
     (form_data req ''remember'' \<noteq> [] \<and> form_data req ''remember'' \<noteq> str ''false'')"

section \<open>Store operations that commit\<close>

text \<open>
  \<open>db.session.add(user); db.session.commit()\<close>: the INSERT fails on the UNIQUE constraint
  of \<open>users.email\<close> (models.py:21) when a row has that email already; otherwise the
  database assigns the primary key.
\<close>

definition insert_user :: "user \<Rightarrow> state \<Rightarrow> db_error + state" where
  "insert_user u st =
     (if email u \<in> set (map email (users st)) then Inl IntegrityError
      else Inr (st\<lparr>users := users st @ [u\<lparr>uid := next_id (map uid (users st))\<rparr>]\<rparr>))"

text \<open>
  \<open>db.session.add(todo); db.session.commit()\<close>; \<open>completed\<close> takes its column default.
\<close>

definition insert_todo :: "pystr \<Rightarrow> nat \<Rightarrow> state \<Rightarrow> state" where
  "insert_todo c owner st =
     st\<lparr>todos := todos st
          @ [\<lparr>tid = next_id (map tid (todos st)), content = c, completed = False,
               user_id = owner\<rparr>]\<rparr>"

text \<open>The UPDATE and the DELETE of one row by its primary key.\<close>

definition update_completed :: "nat \<Rightarrow> bool \<Rightarrow> state \<Rightarrow> state" where
  "update_completed i b st =
     st\<lparr>todos := map (\<lambda>t. if tid t = i then t\<lparr>completed := b\<rparr> else t) (todos st)\<rparr>"

definition delete_todo :: "nat \<Rightarrow> state \<Rightarrow> state" where
  "delete_todo i st = st\<lparr>todos := filter (\<lambda>t. tid t \<noteq> i) (todos st)\<rparr>"

section \<open>Request handlers (main.py)\<close>

text \<open>
  \<open>@login_required\<close> with \<open>login_view = 'login'\<close> and the configured login message
  (main.py:29-31): the user of the request is resolved, and an anonymous request is
  redirected to the login view.
\<close>

definition login_required ::
  "string \<Rightarrow> nat list \<Rightarrow> (user \<Rightarrow> state \<Rightarrow> response \<times> state) \<Rightarrow> state \<Rightarrow> response \<times> state" where
  "login_required endpoint args view st =
     (case current_user st of
        None \<Rightarrow> (Redirect (Login_next endpoint args),
                 flash ''Please log in to access this page.'' ''message'' (load_session st))
      | Some u \<Rightarrow> view u (load_session st))"

text \<open>
  \<open>User(email=e)\<close>: the object in memory, before the database gives it a key (the 0 of
  \<open>uid\<close> is never read: \<open>insert_user\<close> overwrites it) and before \<open>set_password\<close>.
\<close>

definition new_User :: "pystr \<Rightarrow> user" where
  "new_User e = \<lparr>uid = 0, email = e, password = []\<rparr>"

text \<open>
  \<open>register\<close>, main.py:82-92: what runs once the lookup by email has found no row.
  The \<open>IntegrityError\<close> of the commit is caught nowhere: the response is a 500 and the
  transaction is rolled back.
\<close>

definition register_commit :: "libs \<Rightarrow> nat \<Rightarrow> request \<Rightarrow> state \<Rightarrow> response \<times> state" where
  "register_commit L salt req st =
     (case insert_user
             (set_password L salt (new_User (form_data req ''email'')) (form_data req ''password''))
             st of
        Inl err \<Rightarrow> (Internal_server_error, st)
      | Inr st' \<Rightarrow>
          (Redirect (Url_for ''login''),
           flash ''Registration successful! Please log in.'' ''success'' st'))"

definition register :: "libs \<Rightarrow> nat \<Rightarrow> request \<Rightarrow> state \<Rightarrow> response \<times> state" where
  "register L salt req st =
     (if validate_on_submit req (RegisterForm L req) then
        (case first_by_email st (form_data req ''email'') of
           Some existing_user \<Rightarrow>
             (Redirect (Url_for ''register''), flash ''Email already registered'' ''danger'' st)
         | None \<Rightarrow> register_commit L salt req st)
      else (Render ''register.html'' (errors_of req (RegisterForm L req)) [], st))"

text \<open>
  \<open>login_user(user, remember)\<close> and \<open>logout_user()\<close> of Flask-Login: the first writes
  the id into the session and, with \<open>remember\<close>, into the remember cookie; the second
  removes both.
\<close>

definition login_user :: "user \<Rightarrow> bool \<Rightarrow> state \<Rightarrow> state" where
  "login_user u remember st =
     st\<lparr>session_user_id := Some (uid u),
        remember_cookie := (if remember then Some (uid u) else remember_cookie st)\<rparr>"

definition logout_user :: "state \<Rightarrow> state" where
  "logout_user st = st\<lparr>session_user_id := None, remember_cookie := None\<rparr>"

definition login :: "libs \<Rightarrow> request \<Rightarrow> state \<Rightarrow> response \<times> state" where
  "login L req st =
     (if validate_on_submit req (LoginForm L req) then
        (case first_by_email st (form_data req ''email'') of
           Some u \<Rightarrow>
             if check_password L u (form_data req ''password'') then
               (case next_arg req of
                  Some next_page \<Rightarrow>
                    if next_page \<noteq> [] then Redirect (Next_page next_page)
                    else Redirect (Url_for ''index'')
                | None \<Rightarrow> Redirect (Url_for ''index''),
                login_user u (remember_data req) st)
             else (Render ''login.html'' (errors_of req (LoginForm L req)) [],
                   flash ''Invalid email or password'' ''danger'' st)
         | None \<Rightarrow> (Render ''login.html'' (errors_of req (LoginForm L req)) [],
                    flash ''Invalid email or password'' ''danger'' st))
      else (Render ''login.html'' (errors_of req (LoginForm L req)) [], st))"

definition logout :: "state \<Rightarrow> response \<times> state" where
  "logout st =
     login_required ''logout'' []
       (\<lambda>u st. (Redirect (Url_for ''login''),
                 flash ''You have been logged out'' ''info'' (logout_user st))) st"

definition index :: "request \<Rightarrow> state \<Rightarrow> response \<times> state" where
  "index req st =
     login_required ''index'' []
       (\<lambda>u st.
          if validate_on_submit req (TodoForm req) then
            (Redirect (Url_for ''index''), insert_todo (form_data req ''content'') (uid u) st)
          else (Render ''index.html'' (errors_of req (TodoForm req)) (todos_of st (uid u)), st))
       st"

definition toggle :: "nat \<Rightarrow> state \<Rightarrow> response \<times> state" where
  "toggle todo_id st =
     login_required ''toggle'' [todo_id]
       (\<lambda>u st.
          case get_todo st todo_id of
            Inl err \<Rightarrow> (Internal_server_error, st)
          | Inr None \<Rightarrow> (Redirect (Url_for ''index''), flash ''Todo not found'' ''danger'' st)
          | Inr (Some t) \<Rightarrow>
              if user_id t \<noteq> uid u then
                (Redirect (Url_for ''index''), flash ''Unauthorized'' ''danger'' st)
              else (Redirect (Url_for ''index''),
                    update_completed (tid t) (\<not> completed t) st))
       st"

definition delete :: "nat \<Rightarrow> state \<Rightarrow> response \<times> state" where
  "delete todo_id st =
     login_required ''delete'' [todo_id]
       (\<lambda>u st.
          case get_todo st todo_id of
            Inl err \<Rightarrow> (Internal_server_error, st)
          | Inr None \<Rightarrow> (Redirect (Url_for ''index''), flash ''Todo not found'' ''danger'' st)
          | Inr (Some t) \<Rightarrow>
              if user_id t \<noteq> uid u then
                (Redirect (Url_for ''index''), flash ''Unauthorized'' ''danger'' st)
              else (Redirect (Url_for ''index''),
                    flash ''Todo deleted'' ''success'' (delete_todo (tid t) st)))
       st"

section \<open>Deleting a user\<close>

text \<open>
  Modelled from the spec: the deletion of a User row. No function of the source deletes
  a user; the source only declares the cascade (\<open>cascade='all, delete-orphan'\<close> at
  models.py:28, \<open>ondelete='CASCADE'\<close> at models.py:58), and the spec says that deleting a
  user deletes all owned todos. The row of the user goes, and with it every todo whose
  \<open>user_id\<close> is the key of that user.
\<close>

definition delete_user :: "nat \<Rightarrow> state \<Rightarrow> state" where
  "delete_user i st =
     st\<lparr>users := filter (\<lambda>u. uid u \<noteq> i) (users st),
        todos := filter (\<lambda>t. user_id t \<noteq> i) (todos st)\<rparr>"

section \<open>Reachable states\<close>

text \<open>
  The constraints of the schema: primary keys and emails are unique, and the foreign key
  of every todo is the key of a user row.
\<close>

definition no_orphans :: "state \<Rightarrow> bool" where
  "no_orphans st = list_all (\<lambda>t. user_id t \<in> set (map uid (users st))) (todos st)"

definition store_inv :: "state \<Rightarrow> bool" where
  "store_inv st =
     (distinct (map uid (users st)) \<and> distinct (map email (users st))
      \<and> distinct (map tid (todos st)) \<and> no_orphans st)"

text \<open>
  The states the application reaches from the empty database: each step is a request to
  one of the six handlers, a request of another client (the database is shared, the session
  is the cookie of whoever sends the next request), or the deletion of a user.
\<close>

inductive reachable :: "libs \<Rightarrow> state \<Rightarrow> bool" for L :: libs where
  reachable_init: "reachable L init_state"
| reachable_client:
    "reachable L st \<Longrightarrow>
     reachable L (st\<lparr>session_user_id := c, remember_cookie := r, flashes := f\<rparr>)"
| reachable_register: "reachable L st \<Longrightarrow> reachable L (snd (register L salt req st))"
| reachable_login: "reachable L st \<Longrightarrow> reachable L (snd (login L req st))"
| reachable_logout: "reachable L st \<Longrightarrow> reachable L (snd (logout st))"
| reachable_index: "reachable L st \<Longrightarrow> reachable L (snd (index req st))"
| reachable_toggle: "reachable L st \<Longrightarrow> reachable L (snd (toggle i st))"
| reachable_delete: "reachable L st \<Longrightarrow> reachable L (snd (delete i st))"
| reachable_delete_user: "reachable L st \<Longrightarrow> reachable L (delete_user i st)"

section \<open>Concrete requests\<close>

text \<open>A submitted form with a valid CSRF token, and a plain GET.\<close>

definition form_of :: "(string \<times> pystr) list \<Rightarrow> string \<Rightarrow> pystr" where
  "form_of kvs name = (case map_of kvs name of None \<Rightarrow> [] | Some v \<Rightarrow> v)"

definition post_form :: "(string \<times> pystr) list \<Rightarrow> request" where
  "post_form kvs = \<lparr>is_post = True, csrf_valid = True, form_data = form_of kvs, next_arg = None\<rparr>"

definition get_request :: request where
  "get_request = \<lparr>is_post = False, csrf_valid = False, form_data = (\<lambda>name. []), next_arg = None\<rparr>"

section \<open>Concrete states\<close>

text \<open>
  Two registered users, one todo of the first user, and the session of the second user.
\<close>

definition two_users :: state where
  "two_users =
     \<lparr>users = [\<lparr>uid = 1, email = str ''a@x.com'', password = str ''h1''\<rparr>,
               \<lparr>uid = 2, email = str ''b@x.com'', password = str ''h2''\<rparr>],
      todos = [\<lparr>tid = 1, content = str ''buy milk'', completed = False, user_id = 1\<rparr>],
      session_user_id = Some 2, remember_cookie = None, flashes = []\<rparr>"

text \<open>
  A stand-in for the three library functions, for concrete runs: the hash is the salt
  followed by the password, and an email is valid when it has an \<open>@\<close>.
\<close>

definition toy_libs :: libs where
  "toy_libs = \<lparr>generate_password_hash = (\<lambda>salt pw. salt # pw),
                check_password_hash = (\<lambda>h pw. h \<noteq> [] \<and> tl h = pw),
                email_validator = (\<lambda>e. 64 \<in> set e)\<rparr>"

text \<open>The same database seen by a client without a session, and by the client of a user.\<close>

definition anonymous :: "state \<Rightarrow> state" where
  "anonymous st = st\<lparr>session_user_id := None, remember_cookie := None, flashes := []\<rparr>"


text \<open>Two login attempts: an email that no user has, and a wrong password.\<close>

definition login_unknown :: request where
  "login_unknown = post_form [(''email'', str ''c@x.com''), (''password'', str ''secret1'')]"

definition login_wrong :: request where
  "login_wrong = post_form [(''email'', str ''a@x.com''), (''password'', str ''secret1'')]"

text \<open>
  Registrations that the form rejects (a password of three characters, a confirmation that
  differs), and additions that the form rejects (no content, 201 characters).
\<close>

definition register_short :: request where
  "register_short = post_form [(''email'', str ''a@x.com''), (''password'', str ''abc''),
     (''password2'', str ''abc'')]"

definition register_mismatch :: request where
  "register_mismatch = post_form [(''email'', str ''a@x.com''), (''password'', str ''secret1''),
     (''password2'', str ''secret2'')]"

definition add_empty :: request where
  "add_empty = post_form [(''content'', [])]"

definition add_too_long :: request where
  "add_too_long = post_form [(''content'', replicate 201 97)]"

section \<open>The end-to-end run\<close>

text \<open>
  The requests of the run: register \<open>a@x.com\<close> with \<open>secret1\<close>, log in, add
  \<open>buy milk\<close>; and a todo whose content is one space.
\<close>

definition register_a :: request where
  "register_a = post_form [(''email'', str ''a@x.com''), (''password'', str ''secret1''),
     (''password2'', str ''secret1'')]"

definition login_a :: request where
  "login_a = post_form [(''email'', str ''a@x.com''), (''password'', str ''secret1'')]"

definition add_milk :: request where
  "add_milk = post_form [(''content'', str ''buy milk'')]"

definition add_blank :: request where
  "add_blank = post_form [(''content'', [32])]"

text \<open>
  The states of the run, from the empty database: after the registration, the login, the
  addition, the toggle of todo 1 and its deletion.
\<close>

definition registered :: "libs \<Rightarrow> nat \<Rightarrow> state" where
  "registered L salt = snd (register L salt register_a init_state)"

definition logged_in :: "libs \<Rightarrow> nat \<Rightarrow> state" where
  "logged_in L salt = snd (login L login_a (registered L salt))"

definition added :: "libs \<Rightarrow> nat \<Rightarrow> state" where
  "added L salt = snd (index add_milk (logged_in L salt))"

definition toggled :: "libs \<Rightarrow> nat \<Rightarrow> state" where
  "toggled L salt = snd (toggle 1 (added L salt))"

definition deleted :: "libs \<Rightarrow> nat \<Rightarrow> state" where
  "deleted L salt = snd (delete 1 (toggled L salt))"

section \<open>Auxiliary facts\<close>

subsection \<open>Validation\<close>

lemma dropWhile_all: "(\<forall>x\<in>set (dropWhile P xs). P x) \<longleftrightarrow> (\<forall>x\<in>set xs. P x)"
  by (induction xs) auto

lemma strip_empty_iff: "strip s = [] \<longleftrightarrow> (\<forall>c \<in> set s. isspace c)"
  by (simp add: strip_def dropWhile_all)

lemma DataRequired_eq:
  "DataRequired d = (if strip d \<noteq> [] then Pass else Stop DataRequired_error)"
  by (auto simp: DataRequired_def strip_empty_iff)

lemma validate_TodoForm:
  "validate_on_submit req (TodoForm req) \<longleftrightarrow>
     is_post req \<and> csrf_valid req \<and> strip (form_data req ''content'') \<noteq> []
     \<and> length (form_data req ''content'') \<le> 200"
  by (simp add: validate_on_submit_def validate_def TodoForm_def DataRequired_eq Length_def)

lemma validate_LoginForm:
  "validate_on_submit req (LoginForm L req) \<longleftrightarrow>
     is_post req \<and> csrf_valid req \<and> strip (form_data req ''email'') \<noteq> []
     \<and> email_validator L (form_data req ''email'')
     \<and> strip (form_data req ''password'') \<noteq> []"
  by (simp add: validate_on_submit_def validate_def LoginForm_def DataRequired_eq Email_def)

lemma validate_RegisterForm:
  "validate_on_submit req (RegisterForm L req) \<longleftrightarrow>
     is_post req \<and> csrf_valid req \<and> strip (form_data req ''email'') \<noteq> []
     \<and> email_validator L (form_data req ''email'')
     \<and> strip (form_data req ''password'') \<noteq> []
     \<and> 6 \<le> length (form_data req ''password'')
     \<and> form_data req ''password2'' = form_data req ''password''"
  by (auto simp: validate_on_submit_def validate_def RegisterForm_def DataRequired_eq Email_def
      Length_def EqualTo_def)

lemma errors_of_valid: "validate_on_submit req flds \<Longrightarrow> errors_of req flds = []"
  by (simp add: validate_on_submit_def errors_of_def)

lemma fold_max_mono: "a \<le> fold max ys (a::nat)"
  by (induction ys arbitrary: a) (auto intro: order_trans[OF max.cobounded2])

lemma fold_max_ge: "x \<in> set ids \<Longrightarrow> x \<le> fold max ids (a::nat)"
proof (induction ids arbitrary: a)
  case Nil
  then show ?case by simp
next
  case (Cons y ys)
  show ?case
  proof (cases "x = y")
    case True
    then show ?thesis using fold_max_mono[of "max y a" ys] by simp
  next
    case False
    with Cons show ?thesis by simp
  qed
qed

lemma next_id_fresh: "next_id ids \<notin> set ids"
  using fold_max_ge[of "next_id ids" ids 0] by (auto simp: next_id_def)

lemma find_Some_mem: "find P xs = Some x \<Longrightarrow> x \<in> set xs \<and> P x"
  by (induction xs) (auto split: if_splits)

lemma current_user_mem: "current_user st = Some u \<Longrightarrow> u \<in> set (users st)"
  by (auto simp: current_user_def session_user_def load_user_def get_user_def
      split: option.splits dest: find_Some_mem)

lemma load_session_tables:
  "users (load_session st) = users st" "todos (load_session st) = todos st"
  "flashes (load_session st) = flashes st"
  "remember_cookie (load_session st) = remember_cookie st"
  by (simp_all add: load_session_def split: option.splits)

lemma current_user_load_session: "current_user (load_session st) = current_user st"
  by (auto simp: current_user_def session_user_def load_session_def load_user_def get_user_def
      split: option.splits)

lemma load_session_no_cookie: "remember_cookie st = None \<Longrightarrow> load_session st = st"
  by (simp add: load_session_def split: option.splits)

lemma load_session_session_user: "session_user st = Some u \<Longrightarrow> load_session st = st"
  by (simp add: load_session_def)

lemma todos_of_load_session: "todos_of (load_session st) i = todos_of st i"
  by (simp add: todos_of_def load_session_tables)

lemma key_in_range: "\<not> 2 ^ 63 \<le> Suc 0" "\<not> 2 ^ 63 \<le> (5::nat)"
  by simp_all

subsection \<open>The schema constraints hold in every reachable state\<close>

lemma store_inv_init: "store_inv init_state"
  by (simp add: store_inv_def no_orphans_def init_state_def)

lemma store_inv_session:
  "store_inv (st\<lparr>session_user_id := c, remember_cookie := r, flashes := f\<rparr>) = store_inv st"
  by (simp add: store_inv_def no_orphans_def)

lemma store_inv_flash: "store_inv (flash m c st) = store_inv st"
  by (simp add: store_inv_def no_orphans_def flash_def)

lemma store_inv_load_session: "store_inv (load_session st) = store_inv st"
  by (simp add: store_inv_def no_orphans_def load_session_tables)

lemma store_inv_insert_user:
  "store_inv st \<Longrightarrow> insert_user u st = Inr st' \<Longrightarrow> store_inv st'"
  using next_id_fresh[of "map uid (users st)"]
  by (auto simp: store_inv_def no_orphans_def insert_user_def list_all_iff split: if_splits)

lemma store_inv_register: "store_inv st \<Longrightarrow> store_inv (snd (register L salt req st))"
  by (auto simp: register_def register_commit_def store_inv_flash
      split: option.splits sum.splits dest: store_inv_insert_user)

lemma store_inv_login_user: "store_inv (login_user u r st) = store_inv st"
  by (simp add: store_inv_def no_orphans_def login_user_def)

lemma store_inv_logout_user: "store_inv (logout_user st) = store_inv st"
  by (simp add: store_inv_def no_orphans_def logout_user_def)

lemma store_inv_login: "store_inv st \<Longrightarrow> store_inv (snd (login L req st))"
  by (simp add: login_def store_inv_flash store_inv_login_user split: option.splits)

lemma store_inv_logout: "store_inv st \<Longrightarrow> store_inv (snd (logout st))"
  by (simp add: logout_def login_required_def store_inv_flash store_inv_logout_user
      store_inv_load_session split: option.splits)

lemma store_inv_insert_todo:
  "store_inv st \<Longrightarrow> u \<in> set (users st) \<Longrightarrow> store_inv (insert_todo c (uid u) st)"
  using next_id_fresh[of "map tid (todos st)"]
  by (auto simp: store_inv_def no_orphans_def insert_todo_def list_all_iff)

lemma store_inv_index:
  assumes "store_inv st"
  shows "store_inv (snd (index req st))"
proof (cases "current_user st")
  case None
  with assms show ?thesis
    by (simp add: index_def login_required_def store_inv_flash store_inv_load_session)
next
  case (Some u)
  have "store_inv (insert_todo c (uid u) (load_session st))" for c
    using assms current_user_mem[OF Some]
    by (intro store_inv_insert_todo) (simp_all add: store_inv_load_session load_session_tables)
  with assms Some show ?thesis
    by (simp add: index_def login_required_def store_inv_load_session)
qed

lemma tid_update: "tid \<circ> (\<lambda>t. if tid t = i then t\<lparr>completed := b\<rparr> else t) = tid"
  by (auto simp: fun_eq_iff)

lemma store_inv_update_completed: "store_inv st \<Longrightarrow> store_inv (update_completed i b st)"
  by (auto simp: store_inv_def no_orphans_def update_completed_def tid_update list_all_iff)

lemma store_inv_delete_todo: "store_inv st \<Longrightarrow> store_inv (delete_todo i st)"
  by (auto simp: store_inv_def no_orphans_def delete_todo_def list_all_iff distinct_map_filter)

lemma store_inv_toggle: "store_inv st \<Longrightarrow> store_inv (snd (toggle i st))"
  by (auto simp: toggle_def login_required_def store_inv_flash store_inv_load_session
      split: option.splits sum.splits intro: store_inv_update_completed)

lemma store_inv_delete: "store_inv st \<Longrightarrow> store_inv (snd (delete i st))"
  by (auto simp: delete_def login_required_def store_inv_flash store_inv_load_session
      split: option.splits sum.splits intro: store_inv_delete_todo)

lemma store_inv_delete_user: "store_inv st \<Longrightarrow> store_inv (delete_user i st)"
  by (auto simp: store_inv_def no_orphans_def delete_user_def list_all_iff distinct_map_filter)

lemma reachable_store_inv: "reachable L st \<Longrightarrow> store_inv st"
proof (induction rule: reachable.induct)
  case reachable_init
  show ?case by (rule store_inv_init)
next
  case (reachable_client st c r f)
  then show ?case by (simp add: store_inv_session)
next
  case (reachable_register st salt req)
  then show ?case by (simp add: store_inv_register)
next
  case (reachable_login st req)
  then show ?case by (simp add: store_inv_login)
next
  case (reachable_logout st)
  then show ?case by (simp add: store_inv_logout)
next
  case (reachable_index st req)
  then show ?case by (simp add: store_inv_index)
next
  case (reachable_toggle st i)
  then show ?case by (simp add: store_inv_toggle)
next
  case (reachable_delete st i)
  then show ?case by (simp add: store_inv_delete)
next
  case (reachable_delete_user st i)
  then show ?case by (simp add: store_inv_delete_user)
qed

subsection \<open>Lookups after an update or a delete\<close>




lemma select_todo_mem: "select_todo st i = Some t \<Longrightarrow> t \<in> set (todos st)"
  by (auto simp: select_todo_def dest: find_Some_mem)



lemma get_todo_flash: "get_todo (flash m c st) i = get_todo st i"
  by (simp add: get_todo_def select_todo_def flash_def)

lemma get_todo_load_session: "get_todo (load_session st) i = get_todo st i"
  by (simp add: get_todo_def select_todo_def load_session_tables)




lemma find_None_iff2: "find P xs = None \<longleftrightarrow> (\<forall>x \<in> set xs. \<not> P x)"
  by (induction xs) auto

lemma find_filter_other:
  "find (\<lambda>t. tid t = j) (filter (\<lambda>t. tid t \<noteq> i) ts)
     = (if j = i then None else find (\<lambda>t. tid t = j) ts)"
  by (induction ts) auto

lemma select_todo_delete_todo:
  "select_todo (delete_todo i st) j = (if j = i then None else select_todo st j)"
  by (simp add: select_todo_def delete_todo_def find_filter_other)

subsection \<open>The concrete states\<close>

lemma two_users_todo:
  "get_todo two_users 1
     = Inr (Some \<lparr>tid = 1, content = str ''buy milk'', completed = False, user_id = 1\<rparr>)"
  by (simp add: get_todo_def select_todo_def two_users_def)

lemma two_users_current:
  "current_user two_users = Some \<lparr>uid = 2, email = str ''b@x.com'', password = str ''h2''\<rparr>"
  by (simp add: current_user_def session_user_def load_user_def get_user_def two_users_def)

lemma two_users_loaded: "load_session two_users = two_users"
  by (rule load_session_no_cookie) (simp add: two_users_def)

lemma anonymous_current: "current_user (anonymous st) = None"
  by (simp add: current_user_def session_user_def anonymous_def)

lemma anonymous_loaded: "load_session (anonymous st) = anonymous st"
  by (rule load_session_no_cookie) (simp add: anonymous_def)


section \<open>Authorization of toggle and delete\<close>

text \<open>
  Claim C1. For every todo \<open>T\<close> and every authenticated user \<open>B\<close> who is not the owner of
  \<open>T\<close>, \<open>toggle\<close> and \<open>delete\<close> of the id of \<open>T\<close> requested by \<open>B\<close> both answer with the
  flashed message \<open>Unauthorized\<close> and a redirect to the index; the tables of todos and
  users are unchanged, and the row found under that id is still \<open>T\<close>, with its content,
  its completed flag and its owner.
\<close>

theorem toggle_delete_unauthorized:
  assumes "get_todo st i = Inr (Some T)" and "current_user st = Some B"
    and "uid B \<noteq> user_id T"
  shows "toggle i st
           = (Redirect (Url_for ''index''), flash ''Unauthorized'' ''danger'' (load_session st))
       \<and> delete i st
           = (Redirect (Url_for ''index''), flash ''Unauthorized'' ''danger'' (load_session st))
       \<and> todos (snd (toggle i st)) = todos st \<and> todos (snd (delete i st)) = todos st
       \<and> users (snd (toggle i st)) = users st \<and> users (snd (delete i st)) = users st
       \<and> get_todo (snd (toggle i st)) i = Inr (Some T)
       \<and> get_todo (snd (delete i st)) i = Inr (Some T)"
proof -
  have t: "toggle i st
      = (Redirect (Url_for ''index''), flash ''Unauthorized'' ''danger'' (load_session st))"
    using assms by (auto simp: toggle_def login_required_def get_todo_load_session)
  have d: "delete i st
      = (Redirect (Url_for ''index''), flash ''Unauthorized'' ''danger'' (load_session st))"
    using assms by (auto simp: delete_def login_required_def get_todo_load_session)
  have g: "get_todo (flash ''Unauthorized'' ''danger'' (load_session st)) i = Inr (Some T)"
    using assms(1) by (simp add: get_todo_flash get_todo_load_session)
  have u: "todos (flash ''Unauthorized'' ''danger'' (load_session st)) = todos st"
    "users (flash ''Unauthorized'' ''danger'' (load_session st)) = users st"
    by (simp_all add: flash_def load_session_tables)
  show ?thesis
    by (simp add: t d g u)
qed

theorem toggle_delete_unauthorized_witness:
  "get_todo two_users 1
     = Inr (Some \<lparr>tid = 1, content = str ''buy milk'', completed = False, user_id = 1\<rparr>)
   \<and> current_user two_users = Some \<lparr>uid = 2, email = str ''b@x.com'', password = str ''h2''\<rparr>
   \<and> toggle 1 two_users = (Redirect (Url_for ''index''), flash ''Unauthorized'' ''danger'' two_users)
   \<and> delete 1 two_users = (Redirect (Url_for ''index''), flash ''Unauthorized'' ''danger'' two_users)
   \<and> todos (snd (toggle 1 two_users)) = todos two_users
   \<and> todos (snd (delete 1 two_users)) = todos two_users
   \<and> get_todo (snd (toggle 1 two_users)) 1
       = Inr (Some \<lparr>tid = 1, content = str ''buy milk'', completed = False, user_id = 1\<rparr>)
   \<and> get_todo (snd (delete 1 two_users)) 1
       = Inr (Some \<lparr>tid = 1, content = str ''buy milk'', completed = False, user_id = 1\<rparr>)"
proof -
  have other: "uid \<lparr>uid = 2, email = str ''b@x.com'', password = str ''h2''\<rparr>
      \<noteq> user_id \<lparr>tid = 1, content = str ''buy milk'', completed = False, user_id = 1\<rparr>"
    by simp
  show ?thesis
    using toggle_delete_unauthorized [OF two_users_todo two_users_current other,
        unfolded two_users_loaded]
      two_users_todo two_users_current
    by blast
qed

section \<open>Facts about the concrete strings and requests\<close>

lemma str_email_a: "str ''a@x.com'' = [97, 64, 120, 46, 99, 111, 109]"
  by (simp add: str_def)

lemma str_secret1: "str ''secret1'' = [115, 101, 99, 114, 101, 116, 49]"
  by (simp add: str_def)

lemma str_buy_milk: "str ''buy milk'' = [98, 117, 121, 32, 109, 105, 108, 107]"
  by (simp add: str_def)

lemma not_isspace_letter: "97 \<le> c \<Longrightarrow> c \<le> 122 \<Longrightarrow> \<not> isspace c"
  by (auto simp: isspace_def)

lemma strip_nonempty: "c \<in> set s \<Longrightarrow> \<not> isspace c \<Longrightarrow> strip s \<noteq> []"
  by (auto simp: strip_empty_iff)

lemma strip_email_a: "strip (str ''a@x.com'') \<noteq> []"
  by (rule strip_nonempty[of 97]) (simp_all add: str_email_a not_isspace_letter)

lemma strip_secret1: "strip (str ''secret1'') \<noteq> []"
  by (rule strip_nonempty[of 115]) (simp_all add: str_secret1 not_isspace_letter)

lemma strip_buy_milk: "strip (str ''buy milk'') \<noteq> []"
  by (rule strip_nonempty[of 98]) (simp_all add: str_buy_milk not_isspace_letter)

lemma isspace_32: "isspace 32"
  by (simp add: isspace_def)

lemma strip_space: "strip [32] = []"
  by (simp add: strip_empty_iff isspace_32)

lemma current_user_flash: "current_user (flash m c st) = current_user st"
  by (simp add: current_user_def session_user_def load_user_def get_user_def flash_def
      split: option.splits)

lemma str_email_c: "str ''c@x.com'' = [99, 64, 120, 46, 99, 111, 109]"
  by (simp add: str_def)

lemma str_email_b: "str ''b@x.com'' = [98, 64, 120, 46, 99, 111, 109]"
  by (simp add: str_def)

lemma str_h1: "str ''h1'' = [104, 49]"
  by (simp add: str_def)

lemma login_unknown_valid: "validate_on_submit login_unknown (LoginForm toy_libs login_unknown)"
  by (simp add: validate_LoginForm login_unknown_def post_form_def form_of_def toy_libs_def
      strip_secret1 strip_nonempty[of 99] str_email_c not_isspace_letter)

lemma login_wrong_valid: "validate_on_submit login_wrong (LoginForm toy_libs login_wrong)"
  by (simp add: validate_LoginForm login_wrong_def post_form_def form_of_def toy_libs_def
      strip_secret1 strip_email_a) (simp add: str_email_a)

lemma login_unknown_lookup:
  "first_by_email (anonymous two_users) (form_data login_unknown ''email'') = None"
  by (simp add: first_by_email_def anonymous_def two_users_def login_unknown_def post_form_def
      form_of_def str_email_a str_email_b str_email_c)

lemma login_wrong_lookup:
  "first_by_email (anonymous two_users) (form_data login_wrong ''email'')
     = Some \<lparr>uid = 1, email = str ''a@x.com'', password = str ''h1''\<rparr>"
  by (simp add: first_by_email_def anonymous_def two_users_def login_wrong_def post_form_def
      form_of_def)

lemma login_wrong_password:
  "\<not> check_password toy_libs \<lparr>uid = 1, email = str ''a@x.com'', password = str ''h1''\<rparr>
        (form_data login_wrong ''password'')"
  by (simp add: check_password_def toy_libs_def login_wrong_def post_form_def form_of_def
      str_h1 str_secret1)

section \<open>Login failures\<close>

text \<open>
  Claim C2. Two login attempts whose forms pass validation, one with an email that no
  stored user has, one with the email of a stored user and a password that
  \<open>check_password\<close> rejects, have the same outcome on the same state: the same response
  (the login page), the same flashed message \<open>Invalid email or password\<close>, and the same
  resulting state, in which the current user is who it was before (nobody, for an anonymous
  client). The response carries the template and the form errors; the page shows the
  submitted email again, which is the input of the request and not a fact about the store.
\<close>

theorem login_failure_indistinguishable:
  assumes "validate_on_submit r1 (LoginForm L r1)" and "validate_on_submit r2 (LoginForm L r2)"
    and "first_by_email st (form_data r1 ''email'') = None"
    and "first_by_email st (form_data r2 ''email'') = Some u"
    and "\<not> check_password L u (form_data r2 ''password'')"
  shows "login L r1 st
           = (Render ''login.html'' [] [], flash ''Invalid email or password'' ''danger'' st)
       \<and> login L r2 st
           = (Render ''login.html'' [] [], flash ''Invalid email or password'' ''danger'' st)
       \<and> login L r1 st = login L r2 st
       \<and> current_user (snd (login L r1 st)) = current_user st
       \<and> current_user (snd (login L r2 st)) = current_user st"
proof -
  have 1: "login L r1 st
      = (Render ''login.html'' [] [], flash ''Invalid email or password'' ''danger'' st)"
    using assms(1,3) by (simp add: login_def errors_of_valid)
  have 2: "login L r2 st
      = (Render ''login.html'' [] [], flash ''Invalid email or password'' ''danger'' st)"
    using assms(2,4,5) by (simp add: login_def errors_of_valid)
  show ?thesis by (simp add: 1 2 current_user_flash)
qed

theorem login_failure_indistinguishable_witness:
  "login toy_libs login_unknown (anonymous two_users)
     = (Render ''login.html'' [] [],
        flash ''Invalid email or password'' ''danger'' (anonymous two_users))
   \<and> login toy_libs login_wrong (anonymous two_users)
     = (Render ''login.html'' [] [],
        flash ''Invalid email or password'' ''danger'' (anonymous two_users))
   \<and> login toy_libs login_unknown (anonymous two_users)
     = login toy_libs login_wrong (anonymous two_users)
   \<and> current_user (snd (login toy_libs login_unknown (anonymous two_users))) = None
   \<and> current_user (snd (login toy_libs login_wrong (anonymous two_users))) = None"
  using login_failure_indistinguishable [OF login_unknown_valid login_wrong_valid
      login_unknown_lookup login_wrong_lookup login_wrong_password]
  by (simp add: anonymous_current current_user_flash)

section \<open>Logout\<close>

lemma current_user_logout_user: "current_user (logout_user st) = None"
  by (simp add: current_user_def session_user_def logout_user_def)

text \<open>
  Claim C9, as stated, fails: \<open>logout\<close> requested by an anonymous client is not a no-op.
  \<open>login_required\<close> refuses the request with the redirect to the login view and the
  flashed notice that the application also uses for refused requests, and the state after
  the request differs from the state before it.
\<close>

theorem logout_anonymous_counterexample:
  "current_user (anonymous two_users) = None
   \<and> logout (anonymous two_users)
       = (Redirect (Login_next ''logout'' []),
          flash ''Please log in to access this page.'' ''message'' (anonymous two_users))
   \<and> flashes (anonymous two_users) = []
   \<and> flashes (snd (logout (anonymous two_users)))
       = [(''Please log in to access this page.'', ''message'')]
   \<and> snd (logout (anonymous two_users)) \<noteq> anonymous two_users"
proof -
  have l: "logout (anonymous two_users)
       = (Redirect (Login_next ''logout'' []),
          flash ''Please log in to access this page.'' ''message'' (anonymous two_users))"
    by (simp add: logout_def login_required_def anonymous_current anonymous_loaded)
  have f0: "flashes (anonymous two_users) = []"
    by (simp add: anonymous_def)
  have f1: "flashes (snd (logout (anonymous two_users)))
       = [(''Please log in to access this page.'', ''message'')]"
    by (simp add: l flash_def f0)
  have n: "snd (logout (anonymous two_users)) \<noteq> anonymous two_users"
  proof
    assume "snd (logout (anonymous two_users)) = anonymous two_users"
    then have "flashes (snd (logout (anonymous two_users))) = flashes (anonymous two_users)"
      by simp
    with f0 f1 show False by simp
  qed
  show ?thesis
    using anonymous_current [of two_users] l f0 f1 n by blast
qed

text \<open>
  Claim C9, amended. \<open>logout\<close> requested by an authenticated client (by the session or
  by the remember cookie) removes the user id from the session and the remember cookie:
  the current user is anonymous afterwards, and the tables are unchanged. Requested by an
  anonymous client, \<open>logout\<close> is refused by \<open>login_required\<close>: the answer is the redirect
  to the login view with \<open>logout\<close> as the page to return to, the notice
  \<open>Please log in to access this page.\<close> is added to the flashed messages, so the state
  is not the state before; the client stays anonymous, the remember cookie is kept, and the
  tables are unchanged.
\<close>

theorem logout_transitions:
  "(current_user st = Some u \<longrightarrow>
      logout st = (Redirect (Url_for ''login''),
                   flash ''You have been logged out'' ''info'' (logout_user (load_session st)))
      \<and> current_user (snd (logout st)) = None
      \<and> session_user_id (snd (logout st)) = None
      \<and> remember_cookie (snd (logout st)) = None
      \<and> users (snd (logout st)) = users st \<and> todos (snd (logout st)) = todos st)
   \<and> (current_user st = None \<longrightarrow>
      logout st = (Redirect (Login_next ''logout'' []),
                   flash ''Please log in to access this page.'' ''message'' (load_session st))
      \<and> current_user (snd (logout st)) = None
      \<and> flashes (snd (logout st))
          = flashes st @ [(''Please log in to access this page.'', ''message'')]
      \<and> snd (logout st) \<noteq> st
      \<and> session_user_id (snd (logout st)) = session_user_id (load_session st)
      \<and> remember_cookie (snd (logout st)) = remember_cookie st
      \<and> users (snd (logout st)) = users st \<and> todos (snd (logout st)) = todos st)"
proof (intro conjI impI)
  assume a: "current_user st = Some u"
  then show l: "logout st = (Redirect (Url_for ''login''),
      flash ''You have been logged out'' ''info'' (logout_user (load_session st)))"
    by (simp add: logout_def login_required_def)
  show "current_user (snd (logout st)) = None"
    by (simp add: l current_user_flash current_user_logout_user)
  show "session_user_id (snd (logout st)) = None"
    "remember_cookie (snd (logout st)) = None"
    by (simp_all add: l flash_def logout_user_def)
  show "users (snd (logout st)) = users st" "todos (snd (logout st)) = todos st"
    by (simp_all add: l flash_def logout_user_def load_session_tables)
next
  assume a: "current_user st = None"
  then show l: "logout st = (Redirect (Login_next ''logout'' []),
      flash ''Please log in to access this page.'' ''message'' (load_session st))"
    by (simp add: logout_def login_required_def)
  show "current_user (snd (logout st)) = None"
    using a by (simp add: l current_user_flash current_user_load_session)
  show f: "flashes (snd (logout st))
      = flashes st @ [(''Please log in to access this page.'', ''message'')]"
    by (simp add: l flash_def load_session_tables)
  show "snd (logout st) \<noteq> st"
  proof
    assume "snd (logout st) = st"
    then have "flashes (snd (logout st)) = flashes st" by simp
    with f show False by simp
  qed
  show "session_user_id (snd (logout st)) = session_user_id (load_session st)"
    "remember_cookie (snd (logout st)) = remember_cookie st"
    "users (snd (logout st)) = users st" "todos (snd (logout st)) = todos st"
    by (simp_all add: l flash_def load_session_tables)
qed

theorem logout_transitions_witness:
  "current_user two_users = Some \<lparr>uid = 2, email = str ''b@x.com'', password = str ''h2''\<rparr>
   \<and> logout two_users = (Redirect (Url_for ''login''),
        flash ''You have been logged out'' ''info'' (logout_user two_users))
   \<and> current_user (snd (logout two_users)) = None
   \<and> current_user (anonymous two_users) = None
   \<and> logout (anonymous two_users) = (Redirect (Login_next ''logout'' []),
        flash ''Please log in to access this page.'' ''message'' (anonymous two_users))
   \<and> current_user (snd (logout (anonymous two_users))) = None
   \<and> snd (logout (anonymous two_users)) \<noteq> anonymous two_users
   \<and> users (snd (logout (anonymous two_users))) = users (anonymous two_users)
   \<and> todos (snd (logout (anonymous two_users))) = todos (anonymous two_users)"
  using logout_transitions [of two_users "\<lparr>uid = 2, email = str ''b@x.com'', password = str ''h2''\<rparr>",
      unfolded two_users_loaded]
    logout_transitions [of "anonymous two_users"
      "\<lparr>uid = 2, email = str ''b@x.com'', password = str ''h2''\<rparr>", unfolded anonymous_loaded]
    two_users_current anonymous_current [of two_users]
  by blast

section \<open>Toggle\<close>








section \<open>Registration form\<close>

lemma register_short_post: "is_post register_short"
  by (simp add: register_short_def post_form_def)

lemma register_mismatch_post: "is_post register_mismatch"
  by (simp add: register_mismatch_def post_form_def)

lemma register_short_password: "length (form_data register_short ''password'') < 6"
  by (simp add: register_short_def post_form_def form_of_def str_def)

lemma register_mismatch_password:
  "form_data register_mismatch ''password2'' \<noteq> form_data register_mismatch ''password''"
  by (simp add: register_mismatch_def post_form_def form_of_def str_def)

text \<open>
  Claim C10. A submitted registration whose password has fewer than 6 characters, or whose
  confirmation differs from the password, fails the validation of \<open>RegisterForm\<close>:
  \<open>register\<close> renders the form again with an error on the \<open>password\<close> field
  (respectively the \<open>password2\<close> field), without the lookup by email and without the
  insert; the state, and so the table of users, is unchanged.
\<close>

theorem register_rejects_short_or_mismatch:
  assumes "is_post req"
    and "length (form_data req ''password'') < 6
         \<or> form_data req ''password2'' \<noteq> form_data req ''password''"
  shows "register L salt req st
           = (Render ''register.html'' (errors_of req (RegisterForm L req)) [], st)
       \<and> users (snd (register L salt req st)) = users st
       \<and> (length (form_data req ''password'') < 6 \<longrightarrow>
            ''password'' \<in> set (map fst (errors_of req (RegisterForm L req))))
       \<and> (form_data req ''password2'' \<noteq> form_data req ''password'' \<longrightarrow>
            ''password2'' \<in> set (map fst (errors_of req (RegisterForm L req))))"
proof -
  have nv: "\<not> validate_on_submit req (RegisterForm L req)"
    using assms(2) by (auto simp: validate_RegisterForm)
  then have r: "register L salt req st
      = (Render ''register.html'' (errors_of req (RegisterForm L req)) [], st)"
    by (simp add: register_def)
  have p: "''password'' \<in> set (map fst (errors_of req (RegisterForm L req)))"
    if "length (form_data req ''password'') < 6"
    using that assms(1)
    by (simp add: errors_of_def validate_def RegisterForm_def DataRequired_eq Length_def)
  have p2: "''password2'' \<in> set (map fst (errors_of req (RegisterForm L req)))"
    if "form_data req ''password2'' \<noteq> form_data req ''password''"
    using that assms(1)
    by (simp add: errors_of_def validate_def RegisterForm_def DataRequired_eq EqualTo_def)
  show ?thesis using p p2 by (simp add: r)
qed

theorem register_rejects_short_or_mismatch_witness:
  "is_post register_short \<and> length (form_data register_short ''password'') < 6
   \<and> register toy_libs 7 register_short init_state
       = (Render ''register.html'' (errors_of register_short (RegisterForm toy_libs register_short)) [],
          init_state)
   \<and> ''password'' \<in> set (map fst (errors_of register_short (RegisterForm toy_libs register_short)))
   \<and> is_post register_mismatch
   \<and> form_data register_mismatch ''password2'' \<noteq> form_data register_mismatch ''password''
   \<and> register toy_libs 7 register_mismatch init_state
       = (Render ''register.html''
            (errors_of register_mismatch (RegisterForm toy_libs register_mismatch)) [],
          init_state)
   \<and> ''password2''
       \<in> set (map fst (errors_of register_mismatch (RegisterForm toy_libs register_mismatch)))
   \<and> users (snd (register toy_libs 7 register_mismatch init_state)) = []"
proof -
  have u: "users init_state = []" by (simp add: init_state_def)
  show ?thesis
    using register_rejects_short_or_mismatch [OF register_short_post, of toy_libs 7 init_state]
      register_rejects_short_or_mismatch [OF register_mismatch_post, of toy_libs 7 init_state]
      register_short_post register_mismatch_post register_short_password
      register_mismatch_password u
    by metis
qed

section \<open>Adding a todo with invalid content\<close>

lemma add_empty_post: "is_post add_empty"
  by (simp add: add_empty_def post_form_def)

lemma add_too_long_post: "is_post add_too_long"
  by (simp add: add_too_long_def post_form_def)

lemma add_empty_content: "form_data add_empty ''content'' = []"
  by (simp add: add_empty_def post_form_def form_of_def)

lemma add_too_long_content: "200 < length (form_data add_too_long ''content'')"
  by (simp add: add_too_long_def post_form_def form_of_def)

text \<open>
  Claim C5. A submitted todo whose content is empty or longer than 200 characters fails
  the validation of \<open>TodoForm\<close>: the \<open>content\<close> field carries the error of
  \<open>DataRequired\<close> (when the content is empty or all whitespace) or the message of
  \<open>Length(max=200)\<close>, \<open>index\<close> renders the page with these errors for an authenticated
  user, whose session is resolved and otherwise unchanged, and for every client the tables
  of todos and users are unchanged.
\<close>

theorem add_invalid_content_rejected:
  assumes "is_post req"
    and "form_data req ''content'' = [] \<or> 200 < length (form_data req ''content'')"
  shows "todos (snd (index req st)) = todos st \<and> users (snd (index req st)) = users st
       \<and> map_of (errors_of req (TodoForm req)) ''content''
           = Some (if strip (form_data req ''content'') = [] then [DataRequired_error]
                   else [Custom ''Todo must be less than 200 characters''])
       \<and> (current_user st = Some u \<longrightarrow>
            index req st
              = (Render ''index.html'' (errors_of req (TodoForm req)) (todos_of st (uid u)),
                 load_session st))"
proof -
  have s: "strip [] = []" by (simp add: strip_def)
  have nv: "\<not> validate_on_submit req (TodoForm req)"
    using assms(2) s by (auto simp: validate_TodoForm)
  have e: "map_of (errors_of req (TodoForm req)) ''content''
      = Some (if strip (form_data req ''content'') = [] then [DataRequired_error]
              else [Custom ''Todo must be less than 200 characters''])"
    using assms s
    by (auto simp: errors_of_def validate_def TodoForm_def DataRequired_eq Length_def)
  have i: "index req st
      = (Render ''index.html'' (errors_of req (TodoForm req)) (todos_of st (uid u)),
         load_session st)"
    if "current_user st = Some u"
    using that nv by (simp add: index_def login_required_def todos_of_load_session)
  have t: "todos (snd (index req st)) = todos st \<and> users (snd (index req st)) = users st"
    using nv
    by (simp add: index_def login_required_def flash_def load_session_tables
        split: option.splits)
  show ?thesis using e i t by blast
qed

theorem add_invalid_content_rejected_witness:
  "is_post add_empty \<and> form_data add_empty ''content'' = []
   \<and> todos (snd (index add_empty two_users)) = todos two_users
   \<and> index add_empty two_users
       = (Render ''index.html'' (errors_of add_empty (TodoForm add_empty)) (todos_of two_users 2),
          two_users)
   \<and> is_post add_too_long \<and> 200 < length (form_data add_too_long ''content'')
   \<and> todos (snd (index add_too_long two_users)) = todos two_users
   \<and> index add_too_long two_users
       = (Render ''index.html'' (errors_of add_too_long (TodoForm add_too_long))
            (todos_of two_users 2), two_users)"
proof -
  have e: "form_data add_empty ''content'' = [] \<or> 200 < length (form_data add_empty ''content'')"
    using add_empty_content by simp
  have l: "form_data add_too_long ''content'' = []
      \<or> 200 < length (form_data add_too_long ''content'')"
    using add_too_long_content by simp
  note a = add_invalid_content_rejected [OF add_empty_post e, of two_users
      "\<lparr>uid = 2, email = str ''b@x.com'', password = str ''h2''\<rparr>",
      unfolded two_users_loaded]
  note b = add_invalid_content_rejected [OF add_too_long_post l, of two_users
      "\<lparr>uid = 2, email = str ''b@x.com'', password = str ''h2''\<rparr>",
      unfolded two_users_loaded]
  have "index add_empty two_users
      = (Render ''index.html'' (errors_of add_empty (TodoForm add_empty))
           (todos_of two_users (uid \<lparr>uid = 2, email = str ''b@x.com'', password = str ''h2''\<rparr>)),
         two_users)"
    using a two_users_current by blast
  then have ia: "index add_empty two_users
      = (Render ''index.html'' (errors_of add_empty (TodoForm add_empty)) (todos_of two_users 2),
         two_users)"
    by simp
  have "index add_too_long two_users
      = (Render ''index.html'' (errors_of add_too_long (TodoForm add_too_long))
           (todos_of two_users (uid \<lparr>uid = 2, email = str ''b@x.com'', password = str ''h2''\<rparr>)),
         two_users)"
    using b two_users_current by blast
  then have ib: "index add_too_long two_users
      = (Render ''index.html'' (errors_of add_too_long (TodoForm add_too_long))
           (todos_of two_users 2), two_users)"
    by simp
  have ta: "todos (snd (index add_empty two_users)) = todos two_users"
    using a by blast
  have tb: "todos (snd (index add_too_long two_users)) = todos two_users"
    using b by blast
  show ?thesis
    using ia ib ta tb add_empty_post add_too_long_post add_empty_content add_too_long_content
    by blast
qed

section \<open>Adding and listing todos\<close>

subsection \<open>The states of the end-to-end run\<close>

lemma length_secret1: "length (str ''secret1'') = 7"
  by (simp add: str_def)

lemma length_buy_milk: "length (str ''buy milk'') = 8"
  by (simp add: str_def)

lemma register_a_data:
  "form_data register_a ''email'' = str ''a@x.com''"
  "form_data register_a ''password'' = str ''secret1''"
  "form_data register_a ''password2'' = str ''secret1''"
  "is_post register_a" "csrf_valid register_a"
  by (simp_all add: register_a_def post_form_def form_of_def)

lemma login_a_data:
  "form_data login_a ''email'' = str ''a@x.com''"
  "form_data login_a ''password'' = str ''secret1''"
  "form_data login_a ''remember'' = []"
  "is_post login_a" "csrf_valid login_a" "next_arg login_a = None"
  by (simp_all add: login_a_def post_form_def form_of_def)

lemma add_milk_data:
  "form_data add_milk ''content'' = str ''buy milk''" "is_post add_milk" "csrf_valid add_milk"
  by (simp_all add: add_milk_def post_form_def form_of_def)

lemma add_blank_data:
  "form_data add_blank ''content'' = [32]" "is_post add_blank" "csrf_valid add_blank"
  by (simp_all add: add_blank_def post_form_def form_of_def)

lemma register_a_valid:
  "email_validator L (str ''a@x.com'') \<Longrightarrow> validate_on_submit register_a (RegisterForm L register_a)"
  by (simp add: validate_RegisterForm register_a_data strip_email_a strip_secret1 length_secret1)

lemma login_a_valid:
  "email_validator L (str ''a@x.com'') \<Longrightarrow> validate_on_submit login_a (LoginForm L login_a)"
  by (simp add: validate_LoginForm login_a_data strip_email_a strip_secret1)

lemma add_milk_valid: "validate_on_submit add_milk (TodoForm add_milk)"
  by (simp add: validate_TodoForm add_milk_data strip_buy_milk length_buy_milk)

lemma get_request_invalid: "\<not> validate_on_submit get_request flds"
  by (simp add: validate_on_submit_def get_request_def)

lemma get_request_errors: "errors_of get_request flds = []"
  by (simp add: errors_of_def get_request_def)

lemma register_a_outcome:
  assumes "email_validator L (str ''a@x.com'')"
  shows "register L salt register_a init_state
    = (Redirect (Url_for ''login''),
       \<lparr>users = [\<lparr>uid = 1, email = str ''a@x.com'',
                  password = generate_password_hash L salt (str ''secret1'')\<rparr>],
        todos = [], session_user_id = None, remember_cookie = None,
        flashes = [(''Registration successful! Please log in.'', ''success'')]\<rparr>)"
  using assms
  by (simp add: register_def register_a_valid register_a_data first_by_email_def init_state_def
      register_commit_def insert_user_def set_password_def new_User_def next_id_def flash_def)

lemma registered_eq:
  assumes "email_validator L (str ''a@x.com'')"
  shows "registered L salt
    = \<lparr>users = [\<lparr>uid = 1, email = str ''a@x.com'',
                  password = generate_password_hash L salt (str ''secret1'')\<rparr>],
        todos = [], session_user_id = None, remember_cookie = None,
        flashes = [(''Registration successful! Please log in.'', ''success'')]\<rparr>"
  by (simp add: registered_def register_a_outcome[OF assms])

lemma login_a_outcome:
  assumes "email_validator L (str ''a@x.com'')"
    and "check_password_hash L (generate_password_hash L salt (str ''secret1'')) (str ''secret1'')"
  shows "login L login_a (registered L salt)
    = (Redirect (Url_for ''index''),
       \<lparr>users = [\<lparr>uid = 1, email = str ''a@x.com'',
                  password = generate_password_hash L salt (str ''secret1'')\<rparr>],
        todos = [], session_user_id = Some 1, remember_cookie = None,
        flashes = [(''Registration successful! Please log in.'', ''success'')]\<rparr>)"
  using assms
  by (simp add: login_def login_a_valid login_a_data registered_eq first_by_email_def
      check_password_def remember_data_def login_user_def)

lemma logged_in_eq:
  assumes "email_validator L (str ''a@x.com'')"
    and "check_password_hash L (generate_password_hash L salt (str ''secret1'')) (str ''secret1'')"
  shows "logged_in L salt
    = \<lparr>users = [\<lparr>uid = 1, email = str ''a@x.com'',
                  password = generate_password_hash L salt (str ''secret1'')\<rparr>],
        todos = [], session_user_id = Some 1, remember_cookie = None,
        flashes = [(''Registration successful! Please log in.'', ''success'')]\<rparr>"
  by (simp add: logged_in_def login_a_outcome[OF assms])

lemma logged_in_current:
  assumes "email_validator L (str ''a@x.com'')"
    and "check_password_hash L (generate_password_hash L salt (str ''secret1'')) (str ''secret1'')"
  shows "current_user (logged_in L salt)
    = Some \<lparr>uid = 1, email = str ''a@x.com'',
            password = generate_password_hash L salt (str ''secret1'')\<rparr>"
  by (simp add: logged_in_eq[OF assms] current_user_def session_user_def load_user_def
      get_user_def)

lemma logged_in_loaded:
  assumes "email_validator L (str ''a@x.com'')"
    and "check_password_hash L (generate_password_hash L salt (str ''secret1'')) (str ''secret1'')"
  shows "load_session (logged_in L salt) = logged_in L salt"
  by (rule load_session_no_cookie) (simp add: logged_in_eq[OF assms])

lemma add_milk_outcome:
  assumes "email_validator L (str ''a@x.com'')"
    and "check_password_hash L (generate_password_hash L salt (str ''secret1'')) (str ''secret1'')"
  shows "index add_milk (logged_in L salt)
    = (Redirect (Url_for ''index''),
       \<lparr>users = [\<lparr>uid = 1, email = str ''a@x.com'',
                  password = generate_password_hash L salt (str ''secret1'')\<rparr>],
        todos = [\<lparr>tid = 1, content = str ''buy milk'', completed = False, user_id = 1\<rparr>],
        session_user_id = Some 1, remember_cookie = None,
        flashes = [(''Registration successful! Please log in.'', ''success'')]\<rparr>)"
  by (simp add: index_def login_required_def logged_in_current[OF assms]
      logged_in_loaded[OF assms] add_milk_valid add_milk_data insert_todo_def next_id_def)
    (simp add: logged_in_eq[OF assms])

lemma added_eq:
  assumes "email_validator L (str ''a@x.com'')"
    and "check_password_hash L (generate_password_hash L salt (str ''secret1'')) (str ''secret1'')"
  shows "added L salt
    = \<lparr>users = [\<lparr>uid = 1, email = str ''a@x.com'',
                  password = generate_password_hash L salt (str ''secret1'')\<rparr>],
        todos = [\<lparr>tid = 1, content = str ''buy milk'', completed = False, user_id = 1\<rparr>],
        session_user_id = Some 1, remember_cookie = None,
        flashes = [(''Registration successful! Please log in.'', ''success'')]\<rparr>"
  by (simp add: added_def add_milk_outcome[OF assms])

lemma toggle_outcome:
  assumes "email_validator L (str ''a@x.com'')"
    and "check_password_hash L (generate_password_hash L salt (str ''secret1'')) (str ''secret1'')"
  shows "toggle 1 (added L salt)
    = (Redirect (Url_for ''index''),
       \<lparr>users = [\<lparr>uid = 1, email = str ''a@x.com'',
                  password = generate_password_hash L salt (str ''secret1'')\<rparr>],
        todos = [\<lparr>tid = 1, content = str ''buy milk'', completed = True, user_id = 1\<rparr>],
        session_user_id = Some 1, remember_cookie = None,
        flashes = [(''Registration successful! Please log in.'', ''success'')]\<rparr>)"
  by (simp add: added_eq[OF assms] toggle_def login_required_def current_user_def
      session_user_def load_session_def load_user_def get_user_def get_todo_def select_todo_def
      key_in_range update_completed_def)

lemma toggled_eq:
  assumes "email_validator L (str ''a@x.com'')"
    and "check_password_hash L (generate_password_hash L salt (str ''secret1'')) (str ''secret1'')"
  shows "toggled L salt
    = \<lparr>users = [\<lparr>uid = 1, email = str ''a@x.com'',
                  password = generate_password_hash L salt (str ''secret1'')\<rparr>],
        todos = [\<lparr>tid = 1, content = str ''buy milk'', completed = True, user_id = 1\<rparr>],
        session_user_id = Some 1, remember_cookie = None,
        flashes = [(''Registration successful! Please log in.'', ''success'')]\<rparr>"
  by (simp only: toggled_def toggle_outcome[OF assms] snd_conv)

lemma delete_outcome:
  assumes "email_validator L (str ''a@x.com'')"
    and "check_password_hash L (generate_password_hash L salt (str ''secret1'')) (str ''secret1'')"
  shows "delete 1 (toggled L salt)
    = (Redirect (Url_for ''index''),
       \<lparr>users = [\<lparr>uid = 1, email = str ''a@x.com'',
                  password = generate_password_hash L salt (str ''secret1'')\<rparr>],
        todos = [], session_user_id = Some 1, remember_cookie = None,
        flashes = [(''Registration successful! Please log in.'', ''success''),
                   (''Todo deleted'', ''success'')]\<rparr>)"
  by (simp add: toggled_eq[OF assms] delete_def login_required_def current_user_def
      session_user_def load_session_def load_user_def get_user_def get_todo_def select_todo_def
      key_in_range delete_todo_def flash_def)

lemma deleted_eq:
  assumes "email_validator L (str ''a@x.com'')"
    and "check_password_hash L (generate_password_hash L salt (str ''secret1'')) (str ''secret1'')"
  shows "deleted L salt
    = \<lparr>users = [\<lparr>uid = 1, email = str ''a@x.com'',
                  password = generate_password_hash L salt (str ''secret1'')\<rparr>],
        todos = [], session_user_id = Some 1, remember_cookie = None,
        flashes = [(''Registration successful! Please log in.'', ''success''),
                   (''Todo deleted'', ''success'')]\<rparr>"
  by (simp only: deleted_def delete_outcome[OF assms] snd_conv)

lemma list_after:
  assumes "session_user_id st = Some 1" and "users st = [u]" and "uid u = 1"
  shows "fst (index get_request st) = Render ''index.html'' [] (filter (\<lambda>t. user_id t = 1) (todos st))"
proof -
  have su: "session_user st = Some u"
    using assms by (simp add: session_user_def load_user_def get_user_def)
  then have cu: "current_user st = Some u"
    by (simp add: current_user_def)
  show ?thesis
    using assms(3)
    by (simp add: index_def login_required_def cu load_session_session_user[OF su]
        get_request_invalid get_request_errors todos_of_def)
qed

lemma toy_email: "email_validator toy_libs (str ''a@x.com'')"
  by (simp add: toy_libs_def str_email_a)

lemma toy_check:
  "check_password_hash toy_libs (generate_password_hash toy_libs salt pw) pw"
  by (simp add: toy_libs_def)

lemma reachable_registered: "reachable L (registered L salt)"
  unfolding registered_def by (rule reachable_register[OF reachable_init])

lemma reachable_added: "reachable L (added L salt)"
  unfolding added_def logged_in_def
  by (rule reachable_index[OF reachable_login[OF reachable_registered]])

lemma current_user_insert_todo: "current_user (insert_todo c i st) = current_user st"
  by (simp add: current_user_def session_user_def load_user_def get_user_def insert_todo_def
      split: option.splits)

subsection \<open>Valid content\<close>

text \<open>
  Claim C7, as stated, fails: content of one space is not empty and has at most 200
  characters, yet \<open>DataRequired\<close> strips whitespace before it tests for emptiness, so the
  form is rejected and no todo is inserted.
\<close>

theorem add_blank_content_counterexample:
  "current_user two_users = Some \<lparr>uid = 2, email = str ''b@x.com'', password = str ''h2''\<rparr>
   \<and> is_post add_blank \<and> csrf_valid add_blank
   \<and> form_data add_blank ''content'' = [32]
   \<and> form_data add_blank ''content'' \<noteq> []
   \<and> length (form_data add_blank ''content'') \<le> 200
   \<and> index add_blank two_users
       = (Render ''index.html'' [(''content'', [DataRequired_error])] [], two_users)
   \<and> todos (snd (index add_blank two_users)) = todos two_users"
proof -
  have nv: "\<not> validate_on_submit add_blank (TodoForm add_blank)"
    by (simp add: validate_TodoForm add_blank_data strip_space)
  have e: "errors_of add_blank (TodoForm add_blank) = [(''content'', [DataRequired_error])]"
    by (simp add: errors_of_def validate_def TodoForm_def DataRequired_eq add_blank_data
        strip_space)
  have l: "todos_of two_users 2 = []"
    by (simp add: todos_of_def two_users_def)
  have i: "index add_blank two_users
       = (Render ''index.html'' [(''content'', [DataRequired_error])] [], two_users)"
    using l by (simp add: index_def login_required_def two_users_current two_users_loaded nv e)
  show ?thesis
    by (simp add: two_users_current add_blank_data i)
qed

text \<open>
  Claim C7, amended. For every authenticated owner and every submitted content that is not
  empty once stripped of surrounding whitespace and has at most 200 characters, \<open>index\<close>
  inserts a todo with that content, the owner's id and \<open>completed = False\<close>, and the
  listing that follows shows the owner's earlier todos followed by the new one. The
  end-to-end run, for any library whose email validator accepts \<open>a@x.com\<close> and whose hash
  of \<open>secret1\<close> verifies against \<open>secret1\<close>: the registration redirects to the login, the
  login succeeds, the listing after the addition is the one todo \<open>buy milk\<close> with
  \<open>completed = False\<close>, after the toggle the same todo with \<open>completed = True\<close>, and after
  the deletion the listing is empty.
\<close>

theorem add_then_list:
  assumes "current_user st = Some u" and "is_post req" and "csrf_valid req"
    and "strip (form_data req ''content'') \<noteq> []"
    and "length (form_data req ''content'') \<le> 200"
    and "email_validator L (str ''a@x.com'')"
    and "check_password_hash L (generate_password_hash L salt (str ''secret1'')) (str ''secret1'')"
  shows "index req st
           = (Redirect (Url_for ''index''),
              insert_todo (form_data req ''content'') (uid u) (load_session st))
       \<and> todos (snd (index req st))
           = todos st @ [\<lparr>tid = next_id (map tid (todos st)), content = form_data req ''content'',
                          completed = False, user_id = uid u\<rparr>]
       \<and> fst (index get_request (snd (index req st)))
           = Render ''index.html'' []
               (todos_of st (uid u)
                @ [\<lparr>tid = next_id (map tid (todos st)), content = form_data req ''content'',
                     completed = False, user_id = uid u\<rparr>])
       \<and> fst (register L salt register_a init_state) = Redirect (Url_for ''login'')
       \<and> fst (login L login_a (registered L salt)) = Redirect (Url_for ''index'')
       \<and> current_user (logged_in L salt)
           = Some \<lparr>uid = 1, email = str ''a@x.com'',
                   password = generate_password_hash L salt (str ''secret1'')\<rparr>
       \<and> fst (index add_milk (logged_in L salt)) = Redirect (Url_for ''index'')
       \<and> fst (index get_request (added L salt))
           = Render ''index.html'' []
               [\<lparr>tid = 1, content = str ''buy milk'', completed = False, user_id = 1\<rparr>]
       \<and> fst (toggle 1 (added L salt)) = Redirect (Url_for ''index'')
       \<and> fst (index get_request (toggled L salt))
           = Render ''index.html'' []
               [\<lparr>tid = 1, content = str ''buy milk'', completed = True, user_id = 1\<rparr>]
       \<and> fst (delete 1 (toggled L salt)) = Redirect (Url_for ''index'')
       \<and> fst (index get_request (deleted L salt)) = Render ''index.html'' [] []"
proof -
  note lib = assms(6,7)
  have v: "validate_on_submit req (TodoForm req)"
    using assms(2-5) by (simp add: validate_TodoForm)
  have i: "index req st
      = (Redirect (Url_for ''index''),
         insert_todo (form_data req ''content'') (uid u) (load_session st))"
    using assms(1) v by (simp add: index_def login_required_def)
  have t: "todos (snd (index req st))
      = todos st @ [\<lparr>tid = next_id (map tid (todos st)), content = form_data req ''content'',
                     completed = False, user_id = uid u\<rparr>]"
    by (simp add: i insert_todo_def load_session_tables)
  have g: "fst (index get_request (snd (index req st)))
      = Render ''index.html'' []
          (todos_of st (uid u)
           @ [\<lparr>tid = next_id (map tid (todos st)), content = form_data req ''content'',
                completed = False, user_id = uid u\<rparr>])"
    using assms(1)
    by (simp add: i index_def [of get_request] login_required_def current_user_insert_todo
        current_user_load_session get_request_invalid get_request_errors
        todos_of_load_session)
      (simp add: todos_of_def insert_todo_def load_session_tables)
  have e1: "fst (register L salt register_a init_state) = Redirect (Url_for ''login'')"
    by (simp add: register_a_outcome[OF lib(1)])
  have e2: "fst (login L login_a (registered L salt)) = Redirect (Url_for ''index'')"
    by (simp add: login_a_outcome[OF lib])
  have e3: "fst (index add_milk (logged_in L salt)) = Redirect (Url_for ''index'')"
    by (simp add: add_milk_outcome[OF lib])
  have e4: "fst (index get_request (added L salt))
      = Render ''index.html'' []
          [\<lparr>tid = 1, content = str ''buy milk'', completed = False, user_id = 1\<rparr>]"
    by (simp add: list_after[where u = "\<lparr>uid = 1, email = str ''a@x.com'',
        password = generate_password_hash L salt (str ''secret1'')\<rparr>"] added_eq[OF lib])
  have e5: "fst (toggle 1 (added L salt)) = Redirect (Url_for ''index'')"
    by (simp only: toggle_outcome[OF lib] fst_conv)
  have e6: "fst (index get_request (toggled L salt))
      = Render ''index.html'' []
          [\<lparr>tid = 1, content = str ''buy milk'', completed = True, user_id = 1\<rparr>]"
    by (simp add: list_after[where u = "\<lparr>uid = 1, email = str ''a@x.com'',
        password = generate_password_hash L salt (str ''secret1'')\<rparr>"] toggled_eq[OF lib])
  have e7: "fst (delete 1 (toggled L salt)) = Redirect (Url_for ''index'')"
    by (simp only: delete_outcome[OF lib] fst_conv)
  have e8: "fst (index get_request (deleted L salt)) = Render ''index.html'' [] []"
    by (simp add: list_after[where u = "\<lparr>uid = 1, email = str ''a@x.com'',
        password = generate_password_hash L salt (str ''secret1'')\<rparr>"] deleted_eq[OF lib])
  show ?thesis
    using i t g e1 e2 logged_in_current[OF lib] e3 e4 e5 e6 e7 e8 by blast
qed

theorem add_then_list_witness:
  "current_user (logged_in toy_libs 7)
     = Some \<lparr>uid = 1, email = str ''a@x.com'',
             password = generate_password_hash toy_libs 7 (str ''secret1'')\<rparr>
   \<and> is_post add_milk \<and> csrf_valid add_milk
   \<and> strip (form_data add_milk ''content'') \<noteq> []
   \<and> length (form_data add_milk ''content'') \<le> 200
   \<and> email_validator toy_libs (str ''a@x.com'')
   \<and> check_password_hash toy_libs (generate_password_hash toy_libs 7 (str ''secret1''))
        (str ''secret1'')
   \<and> todos (snd (index add_milk (logged_in toy_libs 7)))
       = [\<lparr>tid = 1, content = str ''buy milk'', completed = False, user_id = 1\<rparr>]
   \<and> fst (index get_request (snd (index add_milk (logged_in toy_libs 7))))
       = Render ''index.html'' []
           [\<lparr>tid = 1, content = str ''buy milk'', completed = False, user_id = 1\<rparr>]
   \<and> fst (index get_request (toggled toy_libs 7))
       = Render ''index.html'' []
           [\<lparr>tid = 1, content = str ''buy milk'', completed = True, user_id = 1\<rparr>]
   \<and> fst (index get_request (deleted toy_libs 7)) = Render ''index.html'' [] []"
proof -
  have c: "strip (form_data add_milk ''content'') \<noteq> []"
    by (simp add: add_milk_data strip_buy_milk)
  have n: "length (form_data add_milk ''content'') \<le> 200"
    by (simp add: add_milk_data length_buy_milk)
  note tc = toy_check [of 7 "str ''secret1''"]
  note cu = logged_in_current [OF toy_email tc]
  note w = add_then_list [OF cu add_milk_data(2,3) c n toy_email tc]
  have l: "todos (logged_in toy_libs 7) = []" "todos_of (logged_in toy_libs 7) (Suc 0) = []"
    by (simp_all add: logged_in_eq[OF toy_email tc] todos_of_def)
  have t: "todos (snd (index add_milk (logged_in toy_libs 7)))
       = [\<lparr>tid = 1, content = str ''buy milk'', completed = False, user_id = 1\<rparr>]"
    using w [THEN conjunct2, THEN conjunct1] by (simp add: l add_milk_data next_id_def)
  have g: "fst (index get_request (snd (index add_milk (logged_in toy_libs 7))))
       = Render ''index.html'' []
           [\<lparr>tid = 1, content = str ''buy milk'', completed = False, user_id = 1\<rparr>]"
    using w [THEN conjunct2, THEN conjunct2, THEN conjunct1]
    by (simp add: l add_milk_data next_id_def)
  show ?thesis
    using w t g cu add_milk_data(2,3) c n toy_email tc
    by blast
qed

section \<open>Duplicate registration\<close>

lemma filter_distinct_key:
  "distinct (map f xs) \<Longrightarrow> x \<in> set xs \<Longrightarrow> filter (\<lambda>y. f y = f x) xs = [x]"
proof (induction xs)
  case Nil
  then show ?case by simp
next
  case (Cons a xs)
  from Cons.prems(1) have fresh: "f a \<notin> f ` set xs" and d: "distinct (map f xs)"
    by simp_all
  show ?case
  proof (cases "x = a")
    case True
    have "filter (\<lambda>y. f y = f a) xs = []"
      using fresh by (auto simp: filter_empty_conv image_iff)
    with True show ?thesis by simp
  next
    case False
    with Cons.prems(2) have m: "x \<in> set xs" by simp
    then have "f a \<noteq> f x" using fresh by auto
    with Cons.IH[OF d m] show ?thesis by simp
  qed
qed

lemma first_by_email_found:
  "u \<in> set (users st) \<Longrightarrow> \<exists>x. first_by_email st (email u) = Some x"
  by (cases "first_by_email st (email u)") (auto simp: first_by_email_def find_None_iff2)

lemma registered_user:
  "\<lparr>uid = 1, email = str ''a@x.com'', password = generate_password_hash toy_libs 7 (str ''secret1'')\<rparr>
     \<in> set (users (registered toy_libs 7))"
  by (simp add: registered_eq[OF toy_email])

text \<open>
  Claim C3, as stated, fails where the lookup and the insert race. The part of
  \<open>register\<close> after the lookup, run on a state that holds the email already (another
  registration has committed in between), does not answer with the notice
  \<open>Email already registered\<close>: the commit raises \<open>IntegrityError\<close>, which nothing in the
  source catches, and the answer is a 500 with no flashed message.
\<close>

theorem register_raced_counterexample:
  "first_by_email (anonymous (registered toy_libs 7)) (form_data register_a ''email'')
     = Some \<lparr>uid = 1, email = str ''a@x.com'',
             password = generate_password_hash toy_libs 7 (str ''secret1'')\<rparr>
   \<and> validate_on_submit register_a (RegisterForm toy_libs register_a)
   \<and> register_commit toy_libs 8 register_a (anonymous (registered toy_libs 7))
       = (Internal_server_error, anonymous (registered toy_libs 7))
   \<and> flashes (snd (register_commit toy_libs 8 register_a (anonymous (registered toy_libs 7))))
       = []"
proof -
  have f: "first_by_email (anonymous (registered toy_libs 7)) (form_data register_a ''email'')
     = Some \<lparr>uid = 1, email = str ''a@x.com'',
             password = generate_password_hash toy_libs 7 (str ''secret1'')\<rparr>"
    by (simp add: first_by_email_def anonymous_def registered_eq[OF toy_email] register_a_data)
  have c: "register_commit toy_libs 8 register_a (anonymous (registered toy_libs 7))
       = (Internal_server_error, anonymous (registered toy_libs 7))"
    by (simp add: register_commit_def insert_user_def set_password_def new_User_def
        register_a_data) (simp add: anonymous_def registered_eq[OF toy_email])
  have e: "flashes (snd (register_commit toy_libs 8 register_a (anonymous (registered toy_libs 7))))
       = []"
    by (simp add: c) (simp add: anonymous_def)
  show ?thesis
    using f register_a_valid[OF toy_email] c e by blast
qed

text \<open>
  Claim C3, amended. In every reachable state that holds a user with email \<open>E\<close>, a valid
  registration with email \<open>E\<close> whose lookup sees that user is answered with the flashed
  message \<open>Email already registered\<close> and a redirect to the registration page; the table
  of users is unchanged and holds exactly one row with email \<open>E\<close>. Where the lookup and
  the insert race, the UNIQUE constraint of \<open>users.email\<close> alone keeps the row unique: the
  insert is rejected with \<open>IntegrityError\<close>, so the part of \<open>register\<close> after the lookup
  answers with a 500 (not with the duplicate-email notice) and leaves the state unchanged,
  still with exactly one row with email \<open>E\<close>, and no insert that succeeds produces two
  rows with the same email.
\<close>

theorem register_duplicate_email:
  assumes "reachable L st" and "u \<in> set (users st)"
    and "validate_on_submit req (RegisterForm L req)"
    and "form_data req ''email'' = email u"
  shows "register L salt req st
           = (Redirect (Url_for ''register''), flash ''Email already registered'' ''danger'' st)
       \<and> users (snd (register L salt req st)) = users st
       \<and> filter (\<lambda>x. email x = email u) (users (snd (register L salt req st))) = [u]
       \<and> register_commit L salt req st = (Internal_server_error, st)
       \<and> filter (\<lambda>x. email x = email u) (users (snd (register_commit L salt req st))) = [u]
       \<and> insert_user (v\<lparr>email := email u\<rparr>) st = Inl IntegrityError
       \<and> (\<forall>w st'. insert_user w st = Inr st' \<longrightarrow> distinct (map email (users st')))"
proof -
  have inv: "store_inv st" using assms(1) by (rule reachable_store_inv)
  then have d: "distinct (map email (users st))" by (simp add: store_inv_def)
  obtain x where x: "first_by_email st (email u) = Some x"
    using first_by_email_found[OF assms(2)] by blast
  have r: "register L salt req st
      = (Redirect (Url_for ''register''), flash ''Email already registered'' ''danger'' st)"
    using assms(3,4) x by (simp add: register_def)
  have us: "users (snd (register L salt req st)) = users st"
    by (simp add: r flash_def)
  have one: "filter (\<lambda>x. email x = email u) (users st) = [u]"
    using d assms(2) by (rule filter_distinct_key)
  have m: "email u \<in> set (map email (users st))"
    using assms(2) by simp
  have c: "register_commit L salt req st = (Internal_server_error, st)"
    using m assms(4)
    by (simp add: register_commit_def insert_user_def set_password_def new_User_def)
  have i: "insert_user (v\<lparr>email := email u\<rparr>) st = Inl IntegrityError"
    using m by (simp add: insert_user_def)
  have k: "\<forall>w st'. insert_user w st = Inr st' \<longrightarrow> distinct (map email (users st'))"
    using store_inv_insert_user[OF inv] by (auto simp: store_inv_def)
  have one': "filter (\<lambda>x. email x = email u) (users (snd (register L salt req st))) = [u]"
    by (simp only: us one)
  have one'': "filter (\<lambda>x. email x = email u) (users (snd (register_commit L salt req st))) = [u]"
    by (simp only: c snd_conv one)
  show ?thesis
    using r us one' c one'' i k by blast
qed

theorem register_duplicate_email_witness:
  "reachable toy_libs (registered toy_libs 7)
   \<and> users (registered toy_libs 7)
       = [\<lparr>uid = 1, email = str ''a@x.com'',
            password = generate_password_hash toy_libs 7 (str ''secret1'')\<rparr>]
   \<and> validate_on_submit register_a (RegisterForm toy_libs register_a)
   \<and> form_data register_a ''email'' = str ''a@x.com''
   \<and> register toy_libs 8 register_a (registered toy_libs 7)
       = (Redirect (Url_for ''register''),
          flash ''Email already registered'' ''danger'' (registered toy_libs 7))
   \<and> users (snd (register toy_libs 8 register_a (registered toy_libs 7)))
       = [\<lparr>uid = 1, email = str ''a@x.com'',
            password = generate_password_hash toy_libs 7 (str ''secret1'')\<rparr>]
   \<and> register_commit toy_libs 8 register_a (registered toy_libs 7)
       = (Internal_server_error, registered toy_libs 7)"
proof -
  have e: "form_data register_a ''email''
      = email \<lparr>uid = 1, email = str ''a@x.com'',
                password = generate_password_hash toy_libs 7 (str ''secret1'')\<rparr>"
    by (simp add: register_a_data)
  note w = register_duplicate_email [OF reachable_registered registered_user
      register_a_valid[OF toy_email] e, of 8 "new_User []"]
  have u: "users (registered toy_libs 7)
       = [\<lparr>uid = 1, email = str ''a@x.com'',
            password = generate_password_hash toy_libs 7 (str ''secret1'')\<rparr>]"
    by (simp add: registered_eq[OF toy_email])
  have u': "users (snd (register toy_libs 8 register_a (registered toy_libs 7)))
       = [\<lparr>uid = 1, email = str ''a@x.com'',
            password = generate_password_hash toy_libs 7 (str ''secret1'')\<rparr>]"
    using w [THEN conjunct2, THEN conjunct1] u by simp
  show ?thesis
    using w u u' reachable_registered [of toy_libs 7] register_a_valid[OF toy_email]
      register_a_data(1)
    by blast
qed

section \<open>Deleting a user cascades\<close>

lemma select_todo_delete_user:
  assumes "distinct (map tid (todos st))" and "t \<in> set (todos st)" and "user_id t = A"
  shows "select_todo (delete_user A st) (tid t) = None"
proof -
  have inj: "inj_on tid (set (todos st))"
    using assms(1) by (simp add: distinct_map)
  have "tid x \<noteq> tid t" if "x \<in> set (todos st)" and "user_id x \<noteq> A" for x
  proof
    assume "tid x = tid t"
    with inj that(1) assms(2) have "x = t" by (auto dest: inj_onD)
    with that(2) assms(3) show False by simp
  qed
  then show ?thesis
    by (auto simp: select_todo_def delete_user_def find_None_iff2)
qed

lemma get_todo_not_selected: "select_todo st i = None \<Longrightarrow> get_todo st i \<noteq> Inr (Some x)"
  by (simp add: get_todo_def)

lemma added_todos:
  "todos (added toy_libs 7)
     = [\<lparr>tid = 1, content = str ''buy milk'', completed = False, user_id = 1\<rparr>]"
  by (simp add: added_eq[OF toy_email toy_check])

text \<open>
  Claim C8. In every reachable state no todo refers to a user that does not exist, although
  no handler deletes users. Deleting a user \<open>A\<close> removes the row of \<open>A\<close> and all the todos
  of \<open>A\<close>: none of them is found under its id afterwards (the SELECT by its id finds no
  row, so \<open>db.session.get\<close> never returns it), the listing of \<open>A\<close> is empty, the number of
  rows removed is the number of todos \<open>A\<close> owned, the todos of every other user are
  untouched, and again no todo is left without its user.
\<close>

theorem delete_user_cascades:
  assumes "reachable L st"
  shows "no_orphans st \<and> no_orphans (delete_user A st)
       \<and> (\<forall>t \<in> set (todos st). user_id t = A \<longrightarrow>
             select_todo (delete_user A st) (tid t) = None
             \<and> (\<forall>x. get_todo (delete_user A st) (tid t) \<noteq> Inr (Some x)))
       \<and> todos_of (delete_user A st) A = []
       \<and> get_user (delete_user A st) A = None
       \<and> length (todos (delete_user A st)) + length (todos_of st A) = length (todos st)
       \<and> (\<forall>B. B \<noteq> A \<longrightarrow> todos_of (delete_user A st) B = todos_of st B)"
proof -
  have inv: "store_inv st" using assms by (rule reachable_store_inv)
  then have 1: "no_orphans st" and d: "distinct (map tid (todos st))"
    by (simp_all add: store_inv_def)
  have 2: "no_orphans (delete_user A st)"
    using store_inv_delete_user[OF inv] by (simp add: store_inv_def)
  have 3: "\<forall>t \<in> set (todos st). user_id t = A \<longrightarrow>
      select_todo (delete_user A st) (tid t) = None
      \<and> (\<forall>x. get_todo (delete_user A st) (tid t) \<noteq> Inr (Some x))"
    using d by (auto simp: select_todo_delete_user get_todo_not_selected)
  have 4: "todos_of (delete_user A st) A = []"
    by (auto simp: todos_of_def delete_user_def filter_empty_conv)
  have 5: "get_user (delete_user A st) A = None"
    by (auto simp: get_user_def delete_user_def find_None_iff2)
  have 6: "length (todos (delete_user A st)) + length (todos_of st A) = length (todos st)"
    using sum_length_filter_compl[of "\<lambda>t. user_id t = A" "todos st"]
    by (simp add: todos_of_def delete_user_def)
  have 7: "\<forall>B. B \<noteq> A \<longrightarrow> todos_of (delete_user A st) B = todos_of st B"
    by (auto simp: todos_of_def delete_user_def intro: filter_cong)
  show ?thesis using 1 2 3 4 5 6 7 by blast
qed

theorem delete_user_cascades_witness:
  "reachable toy_libs (added toy_libs 7)
   \<and> todos (added toy_libs 7)
       = [\<lparr>tid = 1, content = str ''buy milk'', completed = False, user_id = 1\<rparr>]
   \<and> get_todo (added toy_libs 7) 1
       = Inr (Some \<lparr>tid = 1, content = str ''buy milk'', completed = False, user_id = 1\<rparr>)
   \<and> select_todo (delete_user 1 (added toy_libs 7)) 1 = None
   \<and> get_todo (delete_user 1 (added toy_libs 7)) 1 = Inr None
   \<and> todos (delete_user 1 (added toy_libs 7)) = []
   \<and> get_user (delete_user 1 (added toy_libs 7)) 1 = None
   \<and> no_orphans (added toy_libs 7) \<and> no_orphans (delete_user 1 (added toy_libs 7))"
proof -
  note w = delete_user_cascades [OF reachable_added, of toy_libs 7 1]
  have m: "\<lparr>tid = 1, content = str ''buy milk'', completed = False, user_id = 1\<rparr>
      \<in> set (todos (added toy_libs 7))"
    by (simp add: added_todos)
  from w have "\<forall>t \<in> set (todos (added toy_libs 7)).
      user_id t = 1 \<longrightarrow> select_todo (delete_user 1 (added toy_libs 7)) (tid t) = None
        \<and> (\<forall>x. get_todo (delete_user 1 (added toy_libs 7)) (tid t) \<noteq> Inr (Some x))"
    by blast
  from this m have
    "user_id \<lparr>tid = 1, content = str ''buy milk'', completed = False, user_id = 1\<rparr> = 1 \<longrightarrow>
     select_todo (delete_user 1 (added toy_libs 7))
       (tid \<lparr>tid = 1, content = str ''buy milk'', completed = False, user_id = 1\<rparr>) = None
     \<and> (\<forall>x. get_todo (delete_user 1 (added toy_libs 7))
       (tid \<lparr>tid = 1, content = str ''buy milk'', completed = False, user_id = 1\<rparr>)
          \<noteq> Inr (Some x))"
    by (rule bspec)
  then have g: "select_todo (delete_user 1 (added toy_libs 7)) 1 = None"
    by simp
  then have g': "get_todo (delete_user 1 (added toy_libs 7)) 1 = Inr None"
    by (simp add: get_todo_def)
  have g0: "get_todo (added toy_libs 7) 1
       = Inr (Some \<lparr>tid = 1, content = str ''buy milk'', completed = False, user_id = 1\<rparr>)"
    by (simp add: get_todo_def select_todo_def added_todos)
  have e: "todos (delete_user 1 (added toy_libs 7)) = []"
    by (simp add: delete_user_def added_todos)
  show ?thesis
    using w g g' g0 e added_todos reachable_added [of toy_libs 7] by blast
qed

end
